theory Spec2Isabelle
  imports Complex_Main
begin

section \<open>The JavaScript runtime pieces the code relies on\<close>

text \<open>
  A \<open>Date\<close> is its time value: milliseconds since the epoch, an integer. The local
  time zone is a fixed offset \<open>tz\<close> in minutes east of UTC (no daylight saving
  switch inside the window). \<open>civil_from_days\<close> and \<open>days_from_civil\<close> are the
  proleptic Gregorian calendar of ECMAScript (\<open>YearFromTime\<close>, \<open>MonthFromTime\<close>,
  \<open>DateFromTime\<close>, \<open>MakeDay\<close>), months counted from 1.
\<close>

type_synonym time_value = int

definition msPerDay :: int where
  "msPerDay = 86400000"

definition Day :: "time_value \<Rightarrow> int" where
  "Day t = t div msPerDay"

definition TimeWithinDay :: "time_value \<Rightarrow> int" where
  "TimeWithinDay t = t mod msPerDay"

definition civil_from_days :: "int \<Rightarrow> int \<times> int \<times> int" where
  "civil_from_days n =
     (let z = n + 719468;
          era = z div 146097;
          doe = z mod 146097;
          yoe = (doe - doe div 1460 + doe div 36524 - doe div 146096) div 365;
          doy = doe - (365 * yoe + yoe div 4 - yoe div 100);
          mp = (5 * doy + 2) div 153;
          d = doy - (153 * mp + 2) div 5 + 1;
          m = (if mp < 10 then mp + 3 else mp - 9);
          y = yoe + era * 400 + (if m \<le> 2 then 1 else 0)
      in (y, m, d))"

definition days_from_civil :: "int \<Rightarrow> int \<Rightarrow> int \<Rightarrow> int" where
  "days_from_civil y m d =
     (let y' = (if m \<le> 2 then y - 1 else y);
          era = y' div 400;
          yoe = y' mod 400;
          doy = (153 * (if m > 2 then m - 3 else m + 9) + 2) div 5 + d - 1;
          doe = yoe * 365 + yoe div 4 - yoe div 100 + doy
      in era * 146097 + doe - 719468)"

definition LocalTime :: "int \<Rightarrow> time_value \<Rightarrow> int" where
  "LocalTime tz t = t + tz * 60000"

definition UTC :: "int \<Rightarrow> int \<Rightarrow> time_value" where
  "UTC tz lt = lt - tz * 60000"

text \<open>\<open>date.getDate()\<close>: the day of the month in local time.\<close>

definition getDate :: "int \<Rightarrow> time_value \<Rightarrow> int" where
  "getDate tz t = (case civil_from_days (Day (LocalTime tz t)) of (y, m, d) \<Rightarrow> d)"

text \<open>
  \<open>date.setDate(dt)\<close>: the local year, month and time of day are kept, the day of
  the month becomes \<open>dt\<close>, and a \<open>dt\<close> outside the month rolls over into the
  neighbouring months (\<open>MakeDay\<close>).
\<close>

definition setDate :: "int \<Rightarrow> time_value \<Rightarrow> int \<Rightarrow> time_value" where
  "setDate tz t dt =
     (let lt = LocalTime tz t
      in case civil_from_days (Day lt) of (y, m, d) \<Rightarrow>
           UTC tz ((days_from_civil y m 1 + dt - 1) * msPerDay + TimeWithinDay lt))"

definition digit :: "int \<Rightarrow> char" where
  "digit n = ''0123456789'' ! nat (n mod 10)"

definition pad2 :: "int \<Rightarrow> string" where
  "pad2 n = [digit (n div 10), digit n]"

definition pad3 :: "int \<Rightarrow> string" where
  "pad3 n = [digit (n div 100), digit (n div 10), digit n]"

definition pad4 :: "int \<Rightarrow> string" where
  "pad4 n = [digit (n div 1000), digit (n div 100), digit (n div 10), digit n]"

definition pad6 :: "int \<Rightarrow> string" where
  "pad6 n = [digit (n div 100000), digit (n div 10000)] @ pad4 n"

text \<open>The year of an ISO string: four digits, or a sign and six digits outside 0..9999.\<close>

definition iso_year :: "int \<Rightarrow> string" where
  "iso_year y =
     (if 0 \<le> y \<and> y \<le> 9999 then pad4 y
      else if y < 0 then CHR ''-'' # pad6 (- y) else CHR ''+'' # pad6 y)"

text \<open>\<open>date.toISOString()\<close>: \<open>YYYY-MM-DDTHH:mm:ss.sssZ\<close>, always in UTC.\<close>

definition toISOString :: "time_value \<Rightarrow> string" where
  "toISOString t =
     (case civil_from_days (Day t) of (y, m, d) \<Rightarrow>
        let ms = TimeWithinDay t
        in iso_year y @ ''-'' @ pad2 m @ ''-'' @ pad2 d @ ''T'' @
           pad2 (ms div 3600000) @ '':'' @ pad2 (ms div 60000 mod 60) @ '':'' @
           pad2 (ms div 1000 mod 60) @ ''.'' @ pad3 (ms mod 1000) @ ''Z'')"

text \<open>\<open>s.split("T")[0]\<close>: the part of \<open>s\<close> before its first \<open>T\<close>.\<close>

definition split_T_0 :: "string \<Rightarrow> string" where
  "split_T_0 s = takeWhile (\<lambda>c. c \<noteq> CHR ''T'') s"

definition startsWith :: "string \<Rightarrow> string \<Rightarrow> bool" where
  "startsWith s p = (take (length p) s = p)"

fun decimal :: "nat \<Rightarrow> string" where
  "decimal n = (if n < 10 then [digit (int n)] else decimal (n div 10) @ [digit (int n)])"

definition month_short :: "int \<Rightarrow> string" where
  "month_short m =
     [''Jan'', ''Feb'', ''Mar'', ''Apr'', ''May'', ''Jun'',
      ''Jul'', ''Aug'', ''Sep'', ''Oct'', ''Nov'', ''Dec''] ! nat (m - 1)"

text \<open>
  \<open>date.toLocaleDateString("en-US", {month: "short", day: "numeric"})\<close>: the local
  calendar date, as in \<open>Jan 9\<close>.
\<close>

definition toLocaleDateString :: "int \<Rightarrow> time_value \<Rightarrow> string" where
  "toLocaleDateString tz t =
     (case civil_from_days (Day (LocalTime tz t)) of (y, m, d) \<Rightarrow>
        month_short m @ '' '' @ decimal (nat d))"

text \<open>\<open>s || null\<close> and \<open>s || "unknown"\<close> on an optional string, \<open>n || 0\<close> on a number.\<close>

definition or_null :: "string option \<Rightarrow> string option" where
  "or_null s = (case s of None \<Rightarrow> None | Some x \<Rightarrow> if x = [] then None else Some x)"

definition or_unknown :: "string option \<Rightarrow> string" where
  "or_unknown s = (case or_null s of None \<Rightarrow> ''unknown'' | Some x \<Rightarrow> x)"

definition or_zero :: "int \<Rightarrow> int" where
  "or_zero n = (if n = 0 then 0 else n)"

section \<open>Rows and responses of the store\<close>

text \<open>
  The rows follow the interfaces of \<open>lib/supabase.ts\<close>. A nullable column is an
  \<open>option\<close>. \<open>expires_at\<close> is only ever read through \<open>new Date(expires_at)\<close>
  and holds that time value; \<open>viewed_at\<close> is read as text and stays a string.
\<close>

record share_link =
  sl_id :: string
  sl_demo_id :: string
  token :: string
  expires_at :: "time_value option"
  is_active :: bool
  view_count :: int
  max_views :: "int option"

record demo =
  d_id :: string
  d_title :: string
  is_public :: bool
  owner_id :: string

record demo_step =
  ds_id :: string
  ds_demo_id :: string
  order_index :: int

record demo_view =
  dv_id :: string
  dv_demo_id :: string
  share_link_id :: "string option"
  viewer_ip :: string
  viewer_location :: "string option"
  viewed_at :: string
  time_spent :: int
  completed_steps :: int
  total_steps :: int

text \<open>
  What an awaited query gives: \<open>{data, error: null}\<close>, \<open>{data: null, error}\<close>, or a
  rejected promise (the \<open>await\<close> throws).
\<close>

datatype 'a response = Data 'a | Error | Rejected

text \<open>
  A JavaScript number that is the result of a division: the exact quotient (of which
  the runtime returns the nearest double), or \<open>NaN\<close>.
\<close>

datatype jsnumber = Num rat | NaN

section \<open>\<open>lib/analytics.ts\<close>: the aggregation\<close>

record day_views =
  date :: string
  dv_views :: nat

record top_demo =
  title :: string
  td_id :: string
  td_views :: nat

text \<open>
  \<open>AnalyticsData\<close> without \<open>deviceTypes\<close> and \<open>locations\<close>, the two mock
  breakdowns that the code derives from the number of views in floating point.
\<close>

record AnalyticsData =
  totalViews :: nat
  uniqueViewers :: nat
  avgTimeSpent :: jsnumber
  completionRate :: jsnumber
  viewsByDay :: "day_views list"
  topDemos :: "top_demo list"

definition getEmptyAnalytics :: AnalyticsData where
  "getEmptyAnalytics =
     \<lparr>totalViews = 0, uniqueViewers = 0, avgTimeSpent = Num 0, completionRate = Num 0,
      viewsByDay = [], topDemos = []\<rparr>"

text \<open>One round of the loop of \<open>getViewsByDay\<close>, for the loop variable \<open>i\<close>.\<close>

definition viewsOfDay :: "int \<Rightarrow> time_value \<Rightarrow> demo_view list \<Rightarrow> nat \<Rightarrow> day_views" where
  "viewsOfDay tz now views i =
     (let date = setDate tz now (getDate tz now - int i);
          dateStr = split_T_0 (toISOString date);
          dayViews = length (filter (\<lambda>v. startsWith (viewed_at v) dateStr) views)
      in \<lparr>date = toLocaleDateString tz date, dv_views = dayViews\<rparr>)"

text \<open>
  The loop \<open>for (let i = days - 1; i >= 0; i--)\<close>: the argument counts the rounds
  still to run, so \<open>Suc i\<close> rounds push the entry of \<open>i\<close> and go on with \<open>i\<close> rounds.
\<close>

fun getViewsByDay_from :: "int \<Rightarrow> time_value \<Rightarrow> demo_view list \<Rightarrow> nat \<Rightarrow> day_views list" where
  "getViewsByDay_from tz now views 0 = []"
| "getViewsByDay_from tz now views (Suc i) =
     viewsOfDay tz now views i # getViewsByDay_from tz now views i"

definition getViewsByDay :: "int \<Rightarrow> time_value \<Rightarrow> demo_view list \<Rightarrow> nat \<Rightarrow> day_views list" where
  "getViewsByDay tz now views days = getViewsByDay_from tz now views days"

definition demoViewCounts :: "demo_view list \<Rightarrow> demo list \<Rightarrow> top_demo list" where
  "demoViewCounts views demos =
     map (\<lambda>d. \<lparr>title = d_title d, td_id = d_id d,
                td_views = length (filter (\<lambda>v. dv_demo_id v = d_id d) views)\<rparr>) demos"

text \<open>
  \<open>sort((a, b) => b.views - a.views)\<close> is a stable sort, descending in \<open>views\<close>;
  \<open>slice(0, 5)\<close> keeps the first five.
\<close>

definition getTopDemos :: "demo_view list \<Rightarrow> demo list \<Rightarrow> top_demo list" where
  "getTopDemos views demos =
     take 5 (sort_key (\<lambda>e. - int (td_views e)) (demoViewCounts views demos))"

definition days_of :: "string \<Rightarrow> nat" where
  "days_of timeRange = (if timeRange = ''7d'' then 7 else if timeRange = ''30d'' then 30 else 90)"

text \<open>
  The metrics that both summaries compute from \<open>views\<close>, which is \<open>None\<close> when the
  query gave \<open>data: null\<close>: \<open>views?.length || 0\<close>, \<open>new Set(views?.map(..)).size\<close>,
  \<open>views?.reduce(..) / (totalViews || 1)\<close>, where \<open>undefined / 1\<close> is \<open>NaN\<close>, and the
  completion rate.
\<close>

definition totalViews_of :: "demo_view list option \<Rightarrow> nat" where
  "totalViews_of views = (case views of None \<Rightarrow> 0 | Some vs \<Rightarrow> length vs)"

definition uniqueViewers_of :: "demo_view list option \<Rightarrow> nat" where
  "uniqueViewers_of views =
     (case views of None \<Rightarrow> 0 | Some vs \<Rightarrow> length (remdups (map viewer_ip vs)))"

definition avgTimeSpent_of :: "demo_view list option \<Rightarrow> jsnumber" where
  "avgTimeSpent_of views =
     (case views of
        None \<Rightarrow> NaN
      | Some vs \<Rightarrow>
          Num (of_int (foldl (\<lambda>acc v. acc + or_zero (time_spent v)) 0 vs) /
               of_nat (if totalViews_of views = 0 then 1 else totalViews_of views)))"

definition completedViews_of :: "demo_view list option \<Rightarrow> nat" where
  "completedViews_of views =
     (case views of
        None \<Rightarrow> 0
      | Some vs \<Rightarrow> length (filter (\<lambda>v. completed_steps v = total_steps v) vs))"

text \<open>
  The rate is the exact value of \<open>(completedViews / totalViews) * 100\<close>; the code
  rounds the quotient and the product to doubles.
\<close>

definition completionRate_of :: "demo_view list option \<Rightarrow> jsnumber" where
  "completionRate_of views =
     (if totalViews_of views > 0
      then Num (of_nat (completedViews_of views) / of_nat (totalViews_of views) * 100)
      else Num 0)"

definition or_empty :: "'a list option \<Rightarrow> 'a list" where
  "or_empty xs = (case xs of None \<Rightarrow> [] | Some ys \<Rightarrow> ys)"

text \<open>
  The body of the \<open>try\<close> of \<open>getUserAnalytics\<close>. \<open>Inl\<close> is a thrown error. The
  first query gives the demos of the user, the second one the views of those demos
  since the start date.
\<close>

definition getUserAnalytics_try ::
  "int \<Rightarrow> time_value \<Rightarrow> demo list response \<Rightarrow>
   (string list \<Rightarrow> string \<Rightarrow> demo_view list response) \<Rightarrow> string \<Rightarrow> string + AnalyticsData" where
  "getUserAnalytics_try tz now demos_q views_q timeRange =
     (let days = days_of timeRange;
          startDate = setDate tz now (getDate tz now - int days)
      in case demos_q of
           Rejected \<Rightarrow> Inl ''demos''
         | Error \<Rightarrow> Inr getEmptyAnalytics
         | Data demos \<Rightarrow>
             if length demos = 0 then Inr getEmptyAnalytics
             else
               (case views_q (map d_id demos) (toISOString startDate) of
                  Rejected \<Rightarrow> Inl ''demo_views''
                | r \<Rightarrow>
                    let views = (case r of Data vs \<Rightarrow> Some vs | _ \<Rightarrow> None)
                    in Inr \<lparr>totalViews = totalViews_of views,
                            uniqueViewers = uniqueViewers_of views,
                            avgTimeSpent = avgTimeSpent_of views,
                            completionRate = completionRate_of views,
                            viewsByDay = getViewsByDay tz now (or_empty views) days,
                            topDemos = getTopDemos (or_empty views) demos\<rparr>))"

text \<open>
  \<open>getUserAnalytics\<close>: \<open>catch\<close> logs and returns the empty summary. The second
  component is what was written to the console.
\<close>

definition getUserAnalytics ::
  "int \<Rightarrow> time_value \<Rightarrow> demo list response \<Rightarrow>
   (string list \<Rightarrow> string \<Rightarrow> demo_view list response) \<Rightarrow> string \<Rightarrow> AnalyticsData \<times> string list" where
  "getUserAnalytics tz now demos_q views_q timeRange =
     (case getUserAnalytics_try tz now demos_q views_q timeRange of
        Inl e \<Rightarrow> (getEmptyAnalytics, [''Analytics error:''])
      | Inr a \<Rightarrow> (a, []))"

text \<open>
  \<open>getDemoAnalytics\<close>: the views of one demo, then its title with \<open>.single()\<close>.
\<close>

definition getDemoAnalytics_try ::
  "int \<Rightarrow> time_value \<Rightarrow> (string \<Rightarrow> string \<Rightarrow> demo_view list response) \<Rightarrow>
   (string \<Rightarrow> string response) \<Rightarrow> string \<Rightarrow> string \<Rightarrow> string + AnalyticsData" where
  "getDemoAnalytics_try tz now views_q demo_q demoId timeRange =
     (let days = days_of timeRange;
          startDate = setDate tz now (getDate tz now - int days)
      in case views_q demoId (toISOString startDate) of
           Rejected \<Rightarrow> Inl ''demo_views''
         | r \<Rightarrow>
             let views = (case r of Data vs \<Rightarrow> Some vs | _ \<Rightarrow> None)
             in (case demo_q demoId of
                   Rejected \<Rightarrow> Inl ''demos''
                 | q \<Rightarrow>
                     Inr \<lparr>totalViews = totalViews_of views,
                          uniqueViewers = uniqueViewers_of views,
                          avgTimeSpent = avgTimeSpent_of views,
                          completionRate = completionRate_of views,
                          viewsByDay = getViewsByDay tz now (or_empty views) days,
                          topDemos =
                            (case q of
                               Data t \<Rightarrow> [\<lparr>title = t, td_id = demoId, td_views = totalViews_of views\<rparr>]
                             | _ \<Rightarrow> [])\<rparr>))"

definition getDemoAnalytics ::
  "int \<Rightarrow> time_value \<Rightarrow> (string \<Rightarrow> string \<Rightarrow> demo_view list response) \<Rightarrow>
   (string \<Rightarrow> string response) \<Rightarrow> string \<Rightarrow> string \<Rightarrow> AnalyticsData \<times> string list" where
  "getDemoAnalytics tz now views_q demo_q demoId timeRange =
     (case getDemoAnalytics_try tz now views_q demo_q demoId timeRange of
        Inl e \<Rightarrow> (getEmptyAnalytics, [''Demo analytics error:''])
      | Inr a \<Rightarrow> (a, []))"

section \<open>The store and the tracking calls\<close>

text \<open>
  The tables are lists of rows, and \<open>console\<close> collects what \<open>console.error\<close>
  and \<open>console.log\<close> print. A \<open>fault\<close> says what the store does with one request:
  it performs it, it answers \<open>{data: null, error}\<close> without performing it, or the
  request throws.
\<close>

record world =
  share_links :: "share_link list"
  demos :: "demo list"
  demo_steps :: "demo_step list"
  demo_views :: "demo_view list"
  console :: "string list"

datatype fault = NoFault | ErrorResult | Throws

record faults =
  link_select :: fault
  demo_select :: fault
  steps_select :: fault
  link_update :: fault
  view_insert :: fault
  view_update :: fault

definition respond :: "fault \<Rightarrow> 'a response \<Rightarrow> 'a response" where
  "respond f r = (case f of NoFault \<Rightarrow> r | ErrorResult \<Rightarrow> Error | Throws \<Rightarrow> Rejected)"

text \<open>\<open>.single()\<close>: exactly one row, or an error.\<close>

definition single :: "'a list \<Rightarrow> 'a response" where
  "single rows = (case rows of [r] \<Rightarrow> Data r | _ \<Rightarrow> Error)"

definition log :: "string \<Rightarrow> world \<Rightarrow> world" where
  "log msg w = w\<lparr>console := console w @ [msg]\<rparr>"

text \<open>The third argument of \<open>AnalyticsService.trackView\<close>.\<close>

record viewer_data =
  totalSteps :: int
  ip :: string
  location :: "string option"

definition viewRecord :: "time_value \<Rightarrow> string \<Rightarrow> string option \<Rightarrow> viewer_data option \<Rightarrow> string \<Rightarrow> demo_view" where
  "viewRecord now demoId shareLinkId viewerData new_id =
     \<lparr>dv_id = new_id,
      dv_demo_id = demoId,
      share_link_id = or_null shareLinkId,
      viewer_ip = or_unknown (map_option ip viewerData),
      viewer_location = (case viewerData of None \<Rightarrow> None | Some vd \<Rightarrow> or_null (location vd)),
      viewed_at = toISOString now,
      time_spent = 0,
      completed_steps = 0,
      total_steps = (case viewerData of None \<Rightarrow> 0 | Some vd \<Rightarrow> or_zero (totalSteps vd))\<rparr>"

text \<open>
  The body of the \<open>try\<close> of \<open>AnalyticsService.trackView\<close>: the insert, with
  \<open>.select().single()\<close> giving the inserted row back under the identifier \<open>new_id\<close>
  that the store chose; \<open>if (error) throw error\<close>. \<open>Inl\<close> is a thrown error.
\<close>

definition AnalyticsService_trackView_try ::
  "fault \<Rightarrow> time_value \<Rightarrow> string \<Rightarrow> string \<Rightarrow> string option \<Rightarrow> viewer_data option \<Rightarrow>
   world \<Rightarrow> (string + demo_view) \<times> world" where
  "AnalyticsService_trackView_try f now new_id demoId shareLinkId viewerData w =
     (let row = viewRecord now demoId shareLinkId viewerData new_id
      in case f of
           NoFault \<Rightarrow> (Inr row, w\<lparr>demo_views := demo_views w @ [row]\<rparr>)
         | ErrorResult \<Rightarrow> (Inl ''insert error'', w)
         | Throws \<Rightarrow> (Inl ''insert rejected'', w))"

text \<open>
  \<open>AnalyticsService.trackView\<close>: the row, or \<open>null\<close> after logging. The outer sum says
  whether the call itself throws.
\<close>

definition AnalyticsService_trackView ::
  "fault \<Rightarrow> time_value \<Rightarrow> string \<Rightarrow> string \<Rightarrow> string option \<Rightarrow> viewer_data option \<Rightarrow>
   world \<Rightarrow> (string + demo_view option) \<times> world" where
  "AnalyticsService_trackView f now new_id demoId shareLinkId viewerData w =
     (case AnalyticsService_trackView_try f now new_id demoId shareLinkId viewerData w of
        (Inr row, w') \<Rightarrow> (Inr (Some row), w')
      | (Inl e, w') \<Rightarrow> (Inr None, log ''Track view error:'' w'))"

text \<open>
  \<open>AnalyticsService.updateViewProgress\<close>: the two fields of the rows whose \<open>id\<close> is
  \<open>viewId\<close> are overwritten; an error is thrown inside the \<open>try\<close>, caught and logged.
\<close>

definition AnalyticsService_updateViewProgress_try ::
  "fault \<Rightarrow> string \<Rightarrow> int \<Rightarrow> int \<Rightarrow> world \<Rightarrow> (string + unit) \<times> world" where
  "AnalyticsService_updateViewProgress_try f viewId timeSpent completedSteps w =
     (case f of
        NoFault \<Rightarrow>
          (Inr (),
           w\<lparr>demo_views :=
                map (\<lambda>v. if dv_id v = viewId
                          then v\<lparr>time_spent := timeSpent, completed_steps := completedSteps\<rparr>
                          else v) (demo_views w)\<rparr>)
      | ErrorResult \<Rightarrow> (Inl ''update error'', w)
      | Throws \<Rightarrow> (Inl ''update rejected'', w))"

definition AnalyticsService_updateViewProgress ::
  "fault \<Rightarrow> string \<Rightarrow> int \<Rightarrow> int \<Rightarrow> world \<Rightarrow> (string + unit) \<times> world" where
  "AnalyticsService_updateViewProgress f viewId timeSpent completedSteps w =
     (case AnalyticsService_updateViewProgress_try f viewId timeSpent completedSteps w of
        (Inr u, w') \<Rightarrow> (Inr (), w')
      | (Inl e, w') \<Rightarrow> (Inr (), log ''Update view progress error:'' w'))"

section \<open>The shared viewer: \<open>SharedDemoViewer\<close>\<close>

text \<open>
  The state of the component: the \<open>useState\<close> variables and the two refs. The
  functions of the component are closures of one render: they read the state variables
  as that render bound them (\<open>const [steps, setSteps] = useState(..)\<close>), and a setter
  changes the state of the component, not those bindings. So each function below takes
  the render \<open>r\<close> whose closure runs, next to the state \<open>u\<close> of the component that the
  setters change. Refs are read and written in \<open>u\<close>.
\<close>

record viewer =
  demo :: "demo option"
  steps :: "demo_step list"
  currentStep :: int
  isPlaying :: bool
  loading :: bool
  error :: "string option"
  shareLink :: "share_link option"
  viewId :: "string option"
  startTimeRef :: time_value
  lastUpdateRef :: time_value

text \<open>The first render: the initial values of \<open>useState\<close> and \<open>useRef(Date.now())\<close>.\<close>

definition initial_viewer :: "time_value \<Rightarrow> viewer" where
  "initial_viewer t0 =
     \<lparr>demo = None, steps = [], currentStep = 0, isPlaying = False, loading = True,
      error = None, shareLink = None, viewId = None, startTimeRef = t0, lastUpdateRef = t0\<rparr>"

definition fetchLink :: "fault \<Rightarrow> string \<Rightarrow> world \<Rightarrow> share_link response" where
  "fetchLink f tok w =
     respond f (single (filter (\<lambda>l. token l = tok \<and> is_active l = True) (share_links w)))"

definition fetchDemo :: "fault \<Rightarrow> string \<Rightarrow> world \<Rightarrow> demo response" where
  "fetchDemo f demoId w = respond f (single (filter (\<lambda>d. d_id d = demoId) (demos w)))"

definition fetchSteps :: "fault \<Rightarrow> string \<Rightarrow> world \<Rightarrow> demo_step list response" where
  "fetchSteps f demoId w =
     respond f (Data (sort_key order_index (filter (\<lambda>s. ds_demo_id s = demoId) (demo_steps w))))"

text \<open>\<open>linkData.expires_at && new Date(linkData.expires_at) < new Date()\<close>\<close>

definition expired :: "time_value \<Rightarrow> share_link \<Rightarrow> bool" where
  "expired now linkData = (case expires_at linkData of None \<Rightarrow> False | Some e \<Rightarrow> e < now)"

text \<open>\<open>linkData.max_views && linkData.view_count >= linkData.max_views\<close>\<close>

definition exhausted :: "share_link \<Rightarrow> bool" where
  "exhausted linkData =
     (case max_views linkData of None \<Rightarrow> False | Some m \<Rightarrow> m \<noteq> 0 \<and> view_count linkData \<ge> m)"

text \<open>
  The update of \<open>trackView\<close>: \<open>view_count\<close> of the rows whose \<open>id\<close> is \<open>linkData.id\<close>
  becomes \<open>(linkData.view_count || 0) + 1\<close>, computed from the row that was read.
\<close>

definition incrementViewCount :: "fault \<Rightarrow> share_link \<Rightarrow> world \<Rightarrow> unit response \<times> world" where
  "incrementViewCount f linkData w =
     (case f of
        NoFault \<Rightarrow>
          (Data (),
           w\<lparr>share_links :=
                map (\<lambda>l. if sl_id l = sl_id linkData
                          then l\<lparr>view_count := or_zero (view_count linkData) + 1\<rparr>
                          else l) (share_links w)\<rparr>)
      | ErrorResult \<Rightarrow> (Error, w)
      | Throws \<Rightarrow> (Rejected, w))"

text \<open>The body of the \<open>try\<close> of \<open>trackView\<close>; \<open>steps.length\<close> is read from the render.\<close>

definition trackView_try ::
  "faults \<Rightarrow> time_value \<Rightarrow> string \<Rightarrow> viewer \<Rightarrow> share_link \<Rightarrow> viewer \<times> world \<Rightarrow>
   (string + unit) \<times> viewer \<times> world" where
  "trackView_try fs now new_id r linkData uw =
     (case uw of (u, w) \<Rightarrow>
        (case incrementViewCount (link_update fs) linkData w of
           (Rejected, w1) \<Rightarrow> (Inl ''update rejected'', u, w1)
         | (updateResult, w1) \<Rightarrow>
             let w2 = (if updateResult = Error
                       then log ''Failed to update share link view count:'' w1 else w1)
             in (case AnalyticsService_trackView (view_insert fs) now new_id
                        (sl_demo_id linkData) (Some (sl_id linkData))
                        (Some \<lparr>totalSteps = int (length (steps r)), ip = ''unknown'',
                               location = None\<rparr>) w2 of
                   (Inl e, w3) \<Rightarrow> (Inl e, u, w3)
                 | (Inr None, w3) \<Rightarrow> (Inr (), u, w3)
                 | (Inr (Some viewData), w3) \<Rightarrow>
                     (Inr (), u\<lparr>viewId := Some (dv_id viewData)\<rparr>, w3))))"

definition trackView ::
  "faults \<Rightarrow> time_value \<Rightarrow> string \<Rightarrow> viewer \<Rightarrow> share_link \<Rightarrow> viewer \<times> world \<Rightarrow> viewer \<times> world" where
  "trackView fs now new_id r linkData uw =
     (case trackView_try fs now new_id r linkData uw of
        (Inl e, u, w) \<Rightarrow> (u, log ''Failed to track view:'' w)
      | (Inr x, u, w) \<Rightarrow> (u, w))"

definition stop :: "string \<Rightarrow> viewer \<Rightarrow> viewer" where
  "stop msg u = u\<lparr>error := Some msg, loading := False\<rparr>"

text \<open>The body of the \<open>try\<close> of \<open>validateAndFetchDemo\<close>, for \<open>params.token = tok\<close>.\<close>

definition validateAndFetchDemo_try ::
  "faults \<Rightarrow> time_value \<Rightarrow> string \<Rightarrow> string \<Rightarrow> viewer \<Rightarrow> viewer \<times> world \<Rightarrow>
   (string + unit) \<times> viewer \<times> world" where
  "validateAndFetchDemo_try fs now new_id tok r uw =
     (case uw of (u, w) \<Rightarrow>
        (case fetchLink (link_select fs) tok w of
           Rejected \<Rightarrow> (Inl ''share_links rejected'', u, w)
         | Error \<Rightarrow> (Inr (), stop ''Invalid or expired share link'' u, w)
         | Data linkData \<Rightarrow>
             if expired now linkData then (Inr (), stop ''This share link has expired'' u, w)
             else if exhausted linkData
             then (Inr (), stop ''This share link has reached its view limit'' u, w)
             else
               let u1 = u\<lparr>shareLink := Some linkData\<rparr>
               in (case fetchDemo (demo_select fs) (sl_demo_id linkData) w of
                     Rejected \<Rightarrow> (Inl ''demos rejected'', u1, w)
                   | Error \<Rightarrow> (Inr (), stop ''Demo not found'' u1, w)
                   | Data demoData \<Rightarrow>
                       let u2 = u1\<lparr>demo := Some demoData\<rparr>
                       in (case fetchSteps (steps_select fs) (sl_demo_id linkData) w of
                             Rejected \<Rightarrow> (Inl ''demo_steps rejected'', u2, w)
                           | stepsResult \<Rightarrow>
                               let u3 = (case stepsResult of
                                           Data stepsData \<Rightarrow> u2\<lparr>steps := stepsData\<rparr>
                                         | _ \<Rightarrow> u2)
                               in (Inr (), trackView fs now new_id r linkData (u3, w))))))"

text \<open>
  \<open>validateAndFetchDemo\<close>, run by the effect of the render \<open>r\<close>: \<open>catch\<close> logs and
  sets the error, \<open>finally\<close> clears \<open>loading\<close>.
\<close>

definition validateAndFetchDemo ::
  "faults \<Rightarrow> time_value \<Rightarrow> string \<Rightarrow> string \<Rightarrow> viewer \<Rightarrow> world \<Rightarrow> viewer \<times> world" where
  "validateAndFetchDemo fs now new_id tok r w =
     (case validateAndFetchDemo_try fs now new_id tok r (r, w) of
        (Inl e, u, w') \<Rightarrow>
          (u\<lparr>error := Some ''Failed to load demo'', loading := False\<rparr>,
           log ''Demo loading error:'' w')
      | (Inr x, u, w') \<Rightarrow> (u\<lparr>loading := False\<rparr>, w'))"

text \<open>
  \<open>updateViewProgress\<close> and \<open>trackCompletion\<close> of the component: nothing without a
  \<open>viewId\<close>; otherwise the seconds since \<open>startTimeRef\<close> and the step reached.
\<close>

definition updateViewProgress ::
  "faults \<Rightarrow> time_value \<Rightarrow> viewer \<Rightarrow> viewer \<times> world \<Rightarrow> (string + unit) \<times> viewer \<times> world" where
  "updateViewProgress fs now r uw =
     (case uw of (u, w) \<Rightarrow>
        (case or_null (viewId r) of
           None \<Rightarrow> (Inr (), u, w)
         | Some vid \<Rightarrow>
             let timeSpent = (now - startTimeRef u) div 1000
             in (case AnalyticsService_updateViewProgress (view_update fs) vid timeSpent
                        (currentStep r + 1) w of
                   (Inl e, w') \<Rightarrow> (Inl e, u, w')
                 | (Inr x, w') \<Rightarrow> (Inr (), u\<lparr>lastUpdateRef := now\<rparr>, w'))))"

definition trackCompletion ::
  "faults \<Rightarrow> time_value \<Rightarrow> viewer \<Rightarrow> viewer \<times> world \<Rightarrow> (string + unit) \<times> viewer \<times> world" where
  "trackCompletion fs now r uw =
     (case uw of (u, w) \<Rightarrow>
        (case or_null (viewId r) of
           None \<Rightarrow> (Inr (), u, w)
         | Some vid \<Rightarrow>
             let timeSpent = (now - startTimeRef u) div 1000
             in (case AnalyticsService_updateViewProgress (view_update fs) vid timeSpent
                        (int (length (steps r))) w of
                   (Inl e, w') \<Rightarrow> (Inl e, u, w')
                 | (Inr x, w') \<Rightarrow> (Inr (), u, w'))))"

section \<open>The public viewer: \<open>DemoViewer\<close>\<close>

text \<open>
  \<open>trackView\<close> of the public viewer, run by the effect of a render whose \<open>steps\<close>
  are \<open>steps_r\<close>: the insert is awaited inside a \<open>try\<close>, the \<open>error\<close> of its answer
  is not read, and \<open>catch\<close> prints with \<open>console.log\<close>. The columns that the row
  leaves out are null.
\<close>

definition DemoViewer_trackView ::
  "fault \<Rightarrow> time_value \<Rightarrow> string \<Rightarrow> string \<Rightarrow> demo_step list \<Rightarrow> world \<Rightarrow> world" where
  "DemoViewer_trackView f now new_id params_id steps_r w =
     (case f of
        NoFault \<Rightarrow>
          w\<lparr>demo_views := demo_views w @
               [\<lparr>dv_id = new_id, dv_demo_id = params_id, share_link_id = None,
                 viewer_ip = ''anonymous'', viewer_location = None,
                 viewed_at = toISOString now, time_spent = 0, completed_steps = 0,
                 total_steps = int (length steps_r)\<rparr>]\<rparr>
      | ErrorResult \<Rightarrow> w
      | Throws \<Rightarrow> log ''View tracking failed:'' w)"

text \<open>The first render of the public viewer: \<open>useState<DemoStep[]>([])\<close>.\<close>

definition DemoViewer_initial_steps :: "demo_step list" where
  "DemoViewer_initial_steps = []"

section \<open>Concrete stores and records\<close>

definition no_faults :: faults where
  "no_faults =
     \<lparr>link_select = NoFault, demo_select = NoFault, steps_select = NoFault,
      link_update = NoFault, view_insert = NoFault, view_update = NoFault\<rparr>"

text \<open>A link that is active, never expires and has used none of its five views.\<close>

definition example_link :: share_link where
  "example_link =
     \<lparr>sl_id = ''L1'', sl_demo_id = ''D1'', token = ''abc'', expires_at = None,
      is_active = True, view_count = 0, max_views = Some 5\<rparr>"

text \<open>A demo of three steps with one share link and no views yet.\<close>

definition example_world :: world where
  "example_world =
     \<lparr>share_links = [example_link],
      demos = [\<lparr>d_id = ''D1'', d_title = ''Demo'', is_public = False, owner_id = ''U1''\<rparr>],
      demo_steps =
        [\<lparr>ds_id = ''S1'', ds_demo_id = ''D1'', order_index = 0\<rparr>,
         \<lparr>ds_id = ''S2'', ds_demo_id = ''D1'', order_index = 1\<rparr>,
         \<lparr>ds_id = ''S3'', ds_demo_id = ''D1'', order_index = 2\<rparr>],
      demo_views = [],
      console = []\<rparr>"

text \<open>The same store, the link having expired at time value 1000.\<close>

definition expired_world :: world where
  "expired_world = example_world\<lparr>share_links := [example_link\<lparr>expires_at := Some 1000\<rparr>]\<rparr>"

text \<open>2024-01-09T19:30:00.000Z, which is 01:00 on January 10 at UTC+05:30.\<close>

definition example_now :: time_value where
  "example_now = 1704828600000"

definition example_view :: demo_view where
  "example_view =
     \<lparr>dv_id = ''V0'', dv_demo_id = ''D1'', share_link_id = None, viewer_ip = ''unknown'',
      viewer_location = None, viewed_at = ''2024-01-09T10:00:00.000Z'', time_spent = 0,
      completed_steps = 0, total_steps = 3\<rparr>"

definition demo_Beta :: demo where
  "demo_Beta = \<lparr>d_id = ''A'', d_title = ''Beta'', is_public = True, owner_id = ''U1''\<rparr>"

definition demo_Alpha :: demo where
  "demo_Alpha = \<lparr>d_id = ''B'', d_title = ''Alpha'', is_public = True, owner_id = ''U1''\<rparr>"

text \<open>Ten views of the demo \<open>d\<close>.\<close>

definition ten_views :: "string \<Rightarrow> demo_view list" where
  "ten_views d = replicate 10 (example_view\<lparr>dv_demo_id := d\<rparr>)"

text \<open>A run of later progress calls of one session, each made by the closure of some render.\<close>

datatype progress_call =
  UpdateViewProgress faults time_value viewer
| TrackCompletion faults time_value viewer

fun later_calls :: "progress_call list \<Rightarrow> viewer \<times> world \<Rightarrow> viewer \<times> world" where
  "later_calls [] uw = uw"
| "later_calls (UpdateViewProgress fs now r # cs) uw =
     later_calls cs (snd (updateViewProgress fs now r uw))"
| "later_calls (TrackCompletion fs now r # cs) uw =
     later_calls cs (snd (trackCompletion fs now r uw))"

section \<open>Facts about the store calls\<close>

lemma filter_unique_key:
  assumes "distinct (map f xs)" and "x \<in> set xs"
  shows "filter (\<lambda>y. f y = f x \<and> P y) xs = (if P x then [x] else [])"
  using assms
proof (induction xs)
  case Nil
  then show ?case by simp
next
  case (Cons a xs)
  show ?case
  proof (cases "a = x")
    case True
    have "f x \<notin> f ` set xs"
      using Cons.prems(1) True by simp
    then have "filter (\<lambda>y. f y = f x \<and> P y) xs = []"
      by (fastforce simp: filter_empty_conv image_iff)
    then show ?thesis using True by simp
  next
    case False
    then have mem: "x \<in> set xs"
      using Cons.prems(2) by simp
    have "f a \<noteq> f x"
      using Cons.prems(1) mem by auto
    then show ?thesis
      using Cons.IH Cons.prems(1) mem by simp
  qed
qed

lemma fetchLink_finds:
  assumes "distinct (map token (share_links w))"
    and "l \<in> set (share_links w)"
    and "is_active l"
  shows "fetchLink NoFault (token l) w = Data l"
  using filter_unique_key [OF assms(1) assms(2), of is_active] assms(3)
  by (simp add: fetchLink_def respond_def single_def)

lemma fetchSteps_not_Rejected:
  "f \<noteq> Throws \<Longrightarrow> fetchSteps f demoId w \<noteq> Rejected"
  by (cases f) (simp_all add: fetchSteps_def respond_def)

lemma log_share_links: "share_links (log msg w) = share_links w"
  by (simp add: log_def)

text \<open>The two calls of the service return; neither throws, whatever the store does.\<close>

lemma AnalyticsService_trackView_returns:
  "\<exists>v. fst (AnalyticsService_trackView f now new_id demoId shareLinkId viewerData w) = Inr v"
  by (cases f)
     (simp_all add: AnalyticsService_trackView_def AnalyticsService_trackView_try_def Let_def)

lemma AnalyticsService_updateViewProgress_returns:
  "fst (AnalyticsService_updateViewProgress f vid t c w) = Inr ()"
  by (cases f)
     (simp_all add: AnalyticsService_updateViewProgress_def
        AnalyticsService_updateViewProgress_try_def)

text \<open>A failed write of the service leaves one line on the console and the tables alone.\<close>

lemma AnalyticsService_trackView_failure_logged:
  "f \<noteq> NoFault \<Longrightarrow>
   AnalyticsService_trackView f now new_id demoId shareLinkId viewerData w =
     (Inr None, log ''Track view error:'' w)"
  by (cases f)
     (simp_all add: AnalyticsService_trackView_def AnalyticsService_trackView_try_def Let_def)

lemma AnalyticsService_updateViewProgress_failure_logged:
  "f \<noteq> NoFault \<Longrightarrow>
   AnalyticsService_updateViewProgress f vid t c w =
     (Inr (), log ''Update view progress error:'' w)"
  by (cases f)
     (simp_all add: AnalyticsService_updateViewProgress_def
        AnalyticsService_updateViewProgress_try_def)

text \<open>A fetch that throws during a summary gives the empty summary.\<close>

lemma getUserAnalytics_rejected:
  "getUserAnalytics tz now Rejected views_q timeRange =
     (getEmptyAnalytics, [''Analytics error:''])"
  by (simp add: getUserAnalytics_def getUserAnalytics_try_def Let_def)

lemma AnalyticsService_trackView_share_links:
  "share_links (snd (AnalyticsService_trackView f now new_id demoId shareLinkId viewerData w)) =
   share_links w"
  by (cases f)
     (simp_all add: AnalyticsService_trackView_def AnalyticsService_trackView_try_def
        log_def Let_def)

lemma AnalyticsService_updateViewProgress_share_links:
  "share_links (snd (AnalyticsService_updateViewProgress f vid t c w)) = share_links w"
  by (cases f)
     (simp_all add: AnalyticsService_updateViewProgress_def
        AnalyticsService_updateViewProgress_try_def log_def)

lemma updateViewProgress_share_links:
  "share_links (snd (snd (updateViewProgress fs now r uw))) = share_links (snd uw)"
proof (cases uw)
  case (Pair u w)
  show ?thesis
  proof (cases "or_null (viewId r)")
    case None
    then show ?thesis using Pair by (simp add: updateViewProgress_def)
  next
    case (Some vid)
    obtain x w' where a: "AnalyticsService_updateViewProgress (view_update fs) vid
         ((now - startTimeRef u) div 1000) (currentStep r + 1) w = (x, w')"
      by (cases "AnalyticsService_updateViewProgress (view_update fs) vid
         ((now - startTimeRef u) div 1000) (currentStep r + 1) w") 
    have "share_links w' = share_links w"
      using AnalyticsService_updateViewProgress_share_links [of "view_update fs" vid
         "(now - startTimeRef u) div 1000" "currentStep r + 1" w] a by simp
    then show ?thesis using Pair Some a
      by (cases x) (simp_all add: updateViewProgress_def)
  qed
qed

lemma trackCompletion_share_links:
  "share_links (snd (snd (trackCompletion fs now r uw))) = share_links (snd uw)"
proof (cases uw)
  case (Pair u w)
  show ?thesis
  proof (cases "or_null (viewId r)")
    case None
    then show ?thesis using Pair by (simp add: trackCompletion_def)
  next
    case (Some vid)
    obtain x w' where a: "AnalyticsService_updateViewProgress (view_update fs) vid
         ((now - startTimeRef u) div 1000) (int (length (steps r))) w = (x, w')"
      by (cases "AnalyticsService_updateViewProgress (view_update fs) vid
         ((now - startTimeRef u) div 1000) (int (length (steps r))) w") 
    have "share_links w' = share_links w"
      using AnalyticsService_updateViewProgress_share_links [of "view_update fs" vid
         "(now - startTimeRef u) div 1000" "int (length (steps r))" w] a by simp
    then show ?thesis using Pair Some a
      by (cases x) (simp_all add: trackCompletion_def)
  qed
qed

lemma later_calls_share_links:
  "share_links (snd (later_calls cs uw)) = share_links (snd uw)"
proof (induction cs arbitrary: uw)
  case Nil
  show ?case by simp
next
  case (Cons c cs)
  show ?case
  proof (cases c)
    case (UpdateViewProgress fs now r)
    then show ?thesis using Cons.IH [of "snd (updateViewProgress fs now r uw)"]
      by (simp add: updateViewProgress_share_links)
  next
    case (TrackCompletion fs now r)
    then show ?thesis using Cons.IH [of "snd (trackCompletion fs now r uw)"]
      by (simp add: trackCompletion_share_links)
  qed
qed

lemma incrementViewCount_share_links:
  "share_links (snd (incrementViewCount f l w)) =
     (if f = NoFault
      then map (\<lambda>x. if sl_id x = sl_id l then x\<lparr>view_count := view_count l + 1\<rparr> else x) (share_links w)
      else share_links w)"
  by (cases f) (simp_all add: incrementViewCount_def or_zero_def)

lemma trackView_share_links:
  "share_links (snd (trackView fs now new_id r l (u, w))) =
   share_links (snd (incrementViewCount (link_update fs) l w))"
proof -
  obtain res w1 where inc: "incrementViewCount (link_update fs) l w = (res, w1)"
    by (cases "incrementViewCount (link_update fs) l w")
  define w2 where "w2 = (if res = Error
     then log ''Failed to update share link view count:'' w1 else w1)"
  have w2: "share_links w2 = share_links w1"
    by (simp add: w2_def log_share_links)
  obtain x w3 where tv: "AnalyticsService_trackView (view_insert fs) now new_id
       (sl_demo_id l) (Some (sl_id l))
       (Some \<lparr>totalSteps = int (length (steps r)), ip = ''unknown'', location = None\<rparr>) w2
       = (x, w3)"
    by (cases "AnalyticsService_trackView (view_insert fs) now new_id
       (sl_demo_id l) (Some (sl_id l))
       (Some \<lparr>totalSteps = int (length (steps r)), ip = ''unknown'', location = None\<rparr>) w2")
  have w3: "share_links w3 = share_links w2"
    using AnalyticsService_trackView_share_links [of "view_insert fs" now new_id
       "sl_demo_id l" "Some (sl_id l)"
       "Some \<lparr>totalSteps = int (length (steps r)), ip = ''unknown'', location = None\<rparr>" w2] tv
    by simp
  show ?thesis
  proof (cases res)
    case Rejected
    then show ?thesis using inc
      by (simp add: trackView_def trackView_try_def log_share_links)
  next
    case Error
    then show ?thesis using inc tv w2 w3 unfolding w2_def
      by (simp add: trackView_def trackView_try_def log_share_links
          split: sum.splits option.splits)
  next
    case (Data d)
    then show ?thesis using inc tv w2 w3 unfolding w2_def
      by (simp add: trackView_def trackView_try_def log_share_links
          split: sum.splits option.splits)
  qed
qed


lemma validateAndFetchDemo_opens:
  assumes "fetchLink (link_select fs) tok w = Data l"
    and "\<not> expired now l" and "\<not> exhausted l"
    and "fetchDemo (demo_select fs) (sl_demo_id l) w = Data d"
    and "steps_select fs \<noteq> Throws"
  shows "validateAndFetchDemo fs now new_id tok r w =
           (case trackView fs now new_id r l
                   (case fetchSteps (steps_select fs) (sl_demo_id l) w of
                      Data stepsData \<Rightarrow> r\<lparr>shareLink := Some l, demo := Some d, steps := stepsData\<rparr>
                    | _ \<Rightarrow> r\<lparr>shareLink := Some l, demo := Some d\<rparr>, w) of
              (u, w') \<Rightarrow> (u\<lparr>loading := False\<rparr>, w'))"
proof -
  have ns: "fetchSteps (steps_select fs) (sl_demo_id l) w \<noteq> Rejected"
    using assms(5) by (rule fetchSteps_not_Rejected)
  show ?thesis
  proof (cases "fetchSteps (steps_select fs) (sl_demo_id l) w")
    case Rejected
    then show ?thesis using ns by simp
  next
    case Error
    then show ?thesis using assms(1-4)
      by (simp add: validateAndFetchDemo_def validateAndFetchDemo_try_def Let_def
          split: prod.splits sum.splits)
  next
    case (Data st)
    then show ?thesis using assms(1-4)
      by (simp add: validateAndFetchDemo_def validateAndFetchDemo_try_def Let_def
          split: prod.splits sum.splits)
  qed
qed

lemma trackView_increment_failed:
  assumes "link_update fs = ErrorResult"
  shows "trackView fs now new_id r l (u, w) =
     (if view_insert fs = NoFault
      then (u\<lparr>viewId := Some new_id\<rparr>,
            w\<lparr>demo_views := demo_views w @
                 [viewRecord now (sl_demo_id l) (Some (sl_id l))
                    (Some \<lparr>totalSteps = int (length (steps r)), ip = ''unknown'',
                           location = None\<rparr>) new_id],
               console := console w @ [''Failed to update share link view count:'']\<rparr>)
      else (u, w\<lparr>console := console w @
                   [''Failed to update share link view count:'', ''Track view error:'']\<rparr>))"
  using assms
  by (cases "view_insert fs")
     (simp_all add: trackView_def trackView_try_def incrementViewCount_def log_def
        AnalyticsService_trackView_def AnalyticsService_trackView_try_def Let_def
        viewRecord_def)

lemma trackView_increment_throws:
  assumes "link_update fs = Throws"
  shows "trackView fs now new_id r l (u, w) =
           (u, w\<lparr>console := console w @ [''Failed to track view:'']\<rparr>)"
  using assms
  by (simp add: trackView_def trackView_try_def incrementViewCount_def log_def)

section \<open>Facts about the aggregation\<close>

lemma getViewsByDay_from_empty:
  "map dv_views (getViewsByDay_from tz now [] n) = replicate n 0"
  by (induction n) (simp_all add: viewsOfDay_def Let_def)

lemma getViewsByDay_from_length:
  "length (getViewsByDay_from tz now views n) = n"
  by (induction n) simp_all

lemma getTopDemos_no_views:
  "getTopDemos [] ds =
     take 5 (map (\<lambda>d. \<lparr>title = d_title d, td_id = d_id d, td_views = 0\<rparr>) ds)"
proof -
  have "map (\<lambda>e. - int (td_views e)) (demoViewCounts [] ds) = replicate (length ds) 0"
    by (induction ds) (simp_all add: demoViewCounts_def)
  then have "sorted (map (\<lambda>e. - int (td_views e)) (demoViewCounts [] ds))"
    by simp
  then have "sort_key (\<lambda>e. - int (td_views e)) (demoViewCounts [] ds) = demoViewCounts [] ds"
    by (rule sort_key_id_if_sorted)
  then show ?thesis
    by (simp add: getTopDemos_def demoViewCounts_def)
qed

lemma metrics_no_views:
  "totalViews_of (Some []) = 0" "uniqueViewers_of (Some []) = 0"
  "avgTimeSpent_of (Some []) = Num 0" "completionRate_of (Some []) = Num 0"
  by (simp_all add: totalViews_of_def uniqueViewers_of_def avgTimeSpent_of_def
      completionRate_of_def)

lemma days_of_7d: "days_of ''7d'' = 7"
  by (simp add: days_of_def)

lemma getUserAnalytics_no_views:
  assumes "ds \<noteq> []"
    and "views_q (map d_id ds) (toISOString (setDate tz now (getDate tz now - 7))) = Data []"
  shows "getUserAnalytics tz now (Data ds) views_q ''7d'' =
    (\<lparr>totalViews = 0, uniqueViewers = 0, avgTimeSpent = Num 0, completionRate = Num 0,
      viewsByDay = getViewsByDay tz now [] 7,
      topDemos = take 5 (map (\<lambda>d. \<lparr>title = d_title d, td_id = d_id d, td_views = 0\<rparr>) ds)\<rparr>, [])"
  using assms
  by (simp add: getUserAnalytics_def getUserAnalytics_try_def days_of_7d metrics_no_views
      or_empty_def getTopDemos_no_views)

lemma getUserAnalytics_no_demos:
  "getUserAnalytics tz now (Data []) views_q timeRange = (getEmptyAnalytics, [])"
  by (simp add: getUserAnalytics_def getUserAnalytics_try_def Let_def)

lemma getDemoAnalytics_no_views:
  assumes "views_q demoId (toISOString (setDate tz now (getDate tz now - 7))) = Data []"
    and "demo_q demoId \<noteq> Rejected"
  shows "getDemoAnalytics tz now views_q demo_q demoId ''7d'' =
    (\<lparr>totalViews = 0, uniqueViewers = 0, avgTimeSpent = Num 0, completionRate = Num 0,
      viewsByDay = getViewsByDay tz now [] 7,
      topDemos = (case demo_q demoId of
                    Data t \<Rightarrow> [\<lparr>title = t, td_id = demoId, td_views = 0\<rparr>] | _ \<Rightarrow> [])\<rparr>, [])"
  using assms
  by (cases "demo_q demoId")
     (simp_all add: getDemoAnalytics_def getDemoAnalytics_try_def days_of_7d metrics_no_views
      or_empty_def)

lemma sort_key_descending:
  "sorted_wrt (\<lambda>a b. td_views a \<ge> td_views b) (sort_key (\<lambda>e. - int (td_views e)) xs)"
proof -
  have "sorted (map (\<lambda>e. - int (td_views e)) (sort_key (\<lambda>e. - int (td_views e)) xs))"
    by (rule sorted_sort_key)
  then show ?thesis
    by (simp add: sorted_map)
qed

section \<open>The claims\<close>

subsection \<open>C1: one increment per opened session\<close>

text \<open>
  Claim C1 says that every session opened against a valid link adds one to the view
  count of the link. At the example store, with an update of the link that the store
  answers with an error, the session is opened all the same: the view record \<open>V1\<close>
  is created, the viewer knows it and shows no error, and the link stays at no view.
\<close>

theorem view_count_incremented_once_counterexample:
  "map view_count (share_links example_world) = [0]
   \<and> map view_count (share_links (snd (validateAndFetchDemo
         (no_faults\<lparr>link_update := ErrorResult\<rparr>) example_now ''V1'' ''abc''
         (initial_viewer example_now) example_world))) = [0]
   \<and> map dv_id (demo_views (snd (validateAndFetchDemo
         (no_faults\<lparr>link_update := ErrorResult\<rparr>) example_now ''V1'' ''abc''
         (initial_viewer example_now) example_world))) = [''V1'']
   \<and> viewId (fst (validateAndFetchDemo
         (no_faults\<lparr>link_update := ErrorResult\<rparr>) example_now ''V1'' ''abc''
         (initial_viewer example_now) example_world)) = Some ''V1''
   \<and> error (fst (validateAndFetchDemo
         (no_faults\<lparr>link_update := ErrorResult\<rparr>) example_now ''V1'' ''abc''
         (initial_viewer example_now) example_world)) = None"
  by (simp add: validateAndFetchDemo_def validateAndFetchDemo_try_def trackView_def
      trackView_try_def incrementViewCount_def AnalyticsService_trackView_def
      AnalyticsService_trackView_try_def fetchLink_def fetchDemo_def fetchSteps_def
      respond_def single_def expired_def exhausted_def log_def or_zero_def Let_def
      viewRecord_def no_faults_def example_world_def example_link_def initial_viewer_def)

text \<open>
  Claim C1, amended. A session is opened against a valid link when the effect of a
  render \<open>r\<close> runs \<open>validateAndFetchDemo\<close> for the token of an active link \<open>l\<close> of
  the store that is neither expired nor exhausted, the store answers the lookup, the
  demo of the link is found and the steps query does not throw. When the store
  performs the update of the link, and the link is written in the store in which it
  was looked up (no other open of the link comes in between), the run changes the
  table of share links in exactly one place: the \<open>view_count\<close> of \<open>l\<close> is one more
  than before. Whatever progress and completion calls follow, with whatever outcome,
  the table of share links stays as the open left it. Tokens are unique and
  identifiers of share links are a primary key.
\<close>

theorem view_count_incremented_once:
  assumes mem: "l \<in> set (share_links w)"
    and active: "is_active l"
    and tokens: "distinct (map token (share_links w))"
    and sel: "link_select fs = NoFault"
    and valid: "\<not> expired now l" "\<not> exhausted l"
    and dm: "fetchDemo (demo_select fs) (sl_demo_id l) w = Data d"
    and st: "steps_select fs \<noteq> Throws"
    and upd: "link_update fs = NoFault"
    and pk: "distinct (map sl_id (share_links w))"
    and run: "validateAndFetchDemo fs now new_id (token l) r w = (u', w')"
  shows "share_links w' =
           map (\<lambda>x. if x = l then x\<lparr>view_count := view_count x + 1\<rparr> else x) (share_links w)
         \<and> share_links (snd (later_calls cs (u', w'))) = share_links w'"
proof
  have found: "fetchLink (link_select fs) (token l) w = Data l"
    using fetchLink_finds [OF tokens mem active] sel by simp
  define u3 where "u3 = (case fetchSteps (steps_select fs) (sl_demo_id l) w of
       Data stepsData \<Rightarrow> r\<lparr>shareLink := Some l, demo := Some d, steps := stepsData\<rparr>
     | _ \<Rightarrow> r\<lparr>shareLink := Some l, demo := Some d\<rparr>)"
  have "snd (validateAndFetchDemo fs now new_id (token l) r w) =
          snd (trackView fs now new_id r l (u3, w))"
    unfolding u3_def validateAndFetchDemo_opens [OF found valid dm st, of new_id r]
    by (simp split: prod.splits)
  then have "w' = snd (trackView fs now new_id r l (u3, w))"
    using run by simp
  then have a: "share_links w' =
      map (\<lambda>x. if sl_id x = sl_id l then x\<lparr>view_count := view_count l + 1\<rparr> else x)
        (share_links w)"
    using upd by (simp add: trackView_share_links incrementViewCount_share_links)
  have "\<And>x. x \<in> set (share_links w) \<Longrightarrow> (sl_id x = sl_id l) = (x = l)"
    using pk mem by (auto simp: distinct_map inj_on_def)
  then have "map (\<lambda>x. if sl_id x = sl_id l then x\<lparr>view_count := view_count l + 1\<rparr> else x)
                 (share_links w)
     = map (\<lambda>x. if x = l then x\<lparr>view_count := view_count x + 1\<rparr> else x) (share_links w)"
    by (intro map_cong) auto
  then show "share_links w' =
           map (\<lambda>x. if x = l then x\<lparr>view_count := view_count x + 1\<rparr> else x) (share_links w)"
    using a by simp
next
  show "share_links (snd (later_calls cs (u', w'))) = share_links w'"
    using later_calls_share_links [of cs "(u', w')"] by simp
qed

text \<open>
  Claim C1, amended, at the example store: the open leaves the link at one view, and a heartbeat
  and a completion of the session, made by a render that knows the view, leave it there.
\<close>

theorem view_count_incremented_once_witness:
  "share_links (snd (validateAndFetchDemo no_faults example_now ''V1'' ''abc''
       (initial_viewer example_now) example_world)) = [example_link\<lparr>view_count := 1\<rparr>]
   \<and> share_links (snd (later_calls
        [UpdateViewProgress no_faults (example_now + 10000)
           ((initial_viewer example_now)\<lparr>viewId := Some ''V1''\<rparr>),
         TrackCompletion no_faults (example_now + 20000)
           ((initial_viewer example_now)\<lparr>viewId := Some ''V1''\<rparr>)]
        (validateAndFetchDemo no_faults example_now ''V1'' ''abc''
           (initial_viewer example_now) example_world))) = [example_link\<lparr>view_count := 1\<rparr>]"
proof -
  have h1: "example_link \<in> set (share_links example_world)"
    by (simp add: example_world_def)
  have ha: "is_active example_link"
    by (simp add: example_link_def)
  have ht: "distinct (map token (share_links example_world))"
    by (simp add: example_world_def)
  have hs: "link_select no_faults = NoFault"
    by (simp add: no_faults_def)
  have h2: "\<not> expired example_now example_link"
    by (simp add: expired_def example_link_def)
  have h3: "\<not> exhausted example_link"
    by (simp add: exhausted_def example_link_def)
  have h4: "fetchDemo (demo_select no_faults) (sl_demo_id example_link) example_world =
      Data \<lparr>d_id = ''D1'', d_title = ''Demo'', is_public = False, owner_id = ''U1''\<rparr>"
    by (simp add: fetchDemo_def no_faults_def example_world_def example_link_def
        respond_def single_def)
  have h5: "steps_select no_faults \<noteq> Throws"
    by (simp add: no_faults_def)
  have h6: "link_update no_faults = NoFault"
    by (simp add: no_faults_def)
  have h7: "distinct (map sl_id (share_links example_world))"
    by (simp add: example_world_def)
  have tk: "token example_link = ''abc''"
    by (simp add: example_link_def)
  have h8: "validateAndFetchDemo no_faults example_now ''V1'' (token example_link)
       (initial_viewer example_now) example_world =
     (fst (validateAndFetchDemo no_faults example_now ''V1'' ''abc''
       (initial_viewer example_now) example_world),
      snd (validateAndFetchDemo no_faults example_now ''V1'' ''abc''
       (initial_viewer example_now) example_world))"
    by (simp add: tk)
  have sl: "share_links example_world = [example_link]"
    by (simp add: example_world_def)
  show ?thesis
    using view_count_incremented_once [OF h1 ha ht hs h2 h3 h4 h5 h6 h7 h8,
        of "[UpdateViewProgress no_faults (example_now + 10000)
               ((initial_viewer example_now)\<lparr>viewId := Some ''V1''\<rparr>),
             TrackCompletion no_faults (example_now + 20000)
               ((initial_viewer example_now)\<lparr>viewId := Some ''V1''\<rparr>)]"]
    by (simp add: sl example_link_def)
qed

subsection \<open>C2: the increment and the view record\<close>

text \<open>
  Claim C2 says that the increment is performed only after the view record has been
  created. At the example store, with an insert that the store refuses, the link goes
  from no view to one view and no view record exists: the increment did not wait for
  the record.
\<close>

theorem increment_after_record_counterexample:
  "map view_count (share_links example_world) = [0]
   \<and> map view_count (share_links (snd (validateAndFetchDemo
         (no_faults\<lparr>view_insert := ErrorResult\<rparr>) example_now ''V1'' ''abc''
         (initial_viewer example_now) example_world))) = [1]
   \<and> demo_views (snd (validateAndFetchDemo
         (no_faults\<lparr>view_insert := ErrorResult\<rparr>) example_now ''V1'' ''abc''
         (initial_viewer example_now) example_world)) = []"
  by (simp add: validateAndFetchDemo_def validateAndFetchDemo_try_def trackView_def
      trackView_try_def incrementViewCount_def AnalyticsService_trackView_def
      AnalyticsService_trackView_try_def fetchLink_def fetchDemo_def fetchSteps_def
      respond_def single_def expired_def exhausted_def log_def or_zero_def Let_def
      no_faults_def example_world_def example_link_def initial_viewer_def)

text \<open>
  Claim C2, amended. In an opened session the increment is attempted first and the
  view record is created after it: the share links after the run are those that the
  increment alone leaves, whether or not the record is then created. A failed
  increment is logged and does not block playback: the error of the viewer stays as
  it was and loading ends. When the store answers the increment with an error, the
  record is still created if its insert succeeds, and if the insert fails too its log
  line comes after that of the increment. When the increment throws, no record is
  created.
\<close>

theorem increment_before_record:
  assumes found: "fetchLink (link_select fs) tok w = Data l"
    and valid: "\<not> expired now l" "\<not> exhausted l"
    and dm: "fetchDemo (demo_select fs) (sl_demo_id l) w = Data d"
    and st: "steps_select fs \<noteq> Throws"
  shows "share_links (snd (validateAndFetchDemo fs now new_id tok r w)) =
           share_links (snd (incrementViewCount (link_update fs) l w))
     \<and> (link_update fs = ErrorResult \<longrightarrow>
          error (fst (validateAndFetchDemo fs now new_id tok r w)) = error r
        \<and> loading (fst (validateAndFetchDemo fs now new_id tok r w)) = False
        \<and> (view_insert fs = NoFault \<longrightarrow>
             demo_views (snd (validateAndFetchDemo fs now new_id tok r w)) =
               demo_views w @
                 [viewRecord now (sl_demo_id l) (Some (sl_id l))
                    (Some \<lparr>totalSteps = int (length (steps r)), ip = ''unknown'',
                           location = None\<rparr>) new_id]
           \<and> viewId (fst (validateAndFetchDemo fs now new_id tok r w)) = Some new_id
           \<and> console (snd (validateAndFetchDemo fs now new_id tok r w)) =
               console w @ [''Failed to update share link view count:''])
        \<and> (view_insert fs \<noteq> NoFault \<longrightarrow>
             demo_views (snd (validateAndFetchDemo fs now new_id tok r w)) = demo_views w
           \<and> console (snd (validateAndFetchDemo fs now new_id tok r w)) =
               console w @ [''Failed to update share link view count:'',
                            ''Track view error:'']))
     \<and> (link_update fs = Throws \<longrightarrow>
          error (fst (validateAndFetchDemo fs now new_id tok r w)) = error r
        \<and> loading (fst (validateAndFetchDemo fs now new_id tok r w)) = False
        \<and> demo_views (snd (validateAndFetchDemo fs now new_id tok r w)) = demo_views w
        \<and> console (snd (validateAndFetchDemo fs now new_id tok r w)) =
            console w @ [''Failed to track view:''])"
proof -
  define u3 where "u3 = (case fetchSteps (steps_select fs) (sl_demo_id l) w of
       Data stepsData \<Rightarrow> r\<lparr>shareLink := Some l, demo := Some d, steps := stepsData\<rparr>
     | _ \<Rightarrow> r\<lparr>shareLink := Some l, demo := Some d\<rparr>)"
  have u3: "error u3 = error r"
    by (simp add: u3_def split: response.splits)
  have run: "validateAndFetchDemo fs now new_id tok r w =
      (case trackView fs now new_id r l (u3, w) of (u, w') \<Rightarrow> (u\<lparr>loading := False\<rparr>, w'))"
    unfolding u3_def by (rule validateAndFetchDemo_opens [OF found valid dm st])
  have first: "share_links (snd (validateAndFetchDemo fs now new_id tok r w)) =
           share_links (snd (incrementViewCount (link_update fs) l w))"
    using trackView_share_links [of fs now new_id r l u3 w]
    by (simp add: run case_prod_beta)
  have second: "link_update fs = ErrorResult \<longrightarrow>
          error (fst (validateAndFetchDemo fs now new_id tok r w)) = error r
        \<and> loading (fst (validateAndFetchDemo fs now new_id tok r w)) = False
        \<and> (view_insert fs = NoFault \<longrightarrow>
             demo_views (snd (validateAndFetchDemo fs now new_id tok r w)) =
               demo_views w @
                 [viewRecord now (sl_demo_id l) (Some (sl_id l))
                    (Some \<lparr>totalSteps = int (length (steps r)), ip = ''unknown'',
                           location = None\<rparr>) new_id]
           \<and> viewId (fst (validateAndFetchDemo fs now new_id tok r w)) = Some new_id
           \<and> console (snd (validateAndFetchDemo fs now new_id tok r w)) =
               console w @ [''Failed to update share link view count:''])
        \<and> (view_insert fs \<noteq> NoFault \<longrightarrow>
             demo_views (snd (validateAndFetchDemo fs now new_id tok r w)) = demo_views w
           \<and> console (snd (validateAndFetchDemo fs now new_id tok r w)) =
               console w @ [''Failed to update share link view count:'',
                            ''Track view error:''])"
  proof
    assume e: "link_update fs = ErrorResult"
    show "error (fst (validateAndFetchDemo fs now new_id tok r w)) = error r
        \<and> loading (fst (validateAndFetchDemo fs now new_id tok r w)) = False
        \<and> (view_insert fs = NoFault \<longrightarrow>
             demo_views (snd (validateAndFetchDemo fs now new_id tok r w)) =
               demo_views w @
                 [viewRecord now (sl_demo_id l) (Some (sl_id l))
                    (Some \<lparr>totalSteps = int (length (steps r)), ip = ''unknown'',
                           location = None\<rparr>) new_id]
           \<and> viewId (fst (validateAndFetchDemo fs now new_id tok r w)) = Some new_id
           \<and> console (snd (validateAndFetchDemo fs now new_id tok r w)) =
               console w @ [''Failed to update share link view count:''])
        \<and> (view_insert fs \<noteq> NoFault \<longrightarrow>
             demo_views (snd (validateAndFetchDemo fs now new_id tok r w)) = demo_views w
           \<and> console (snd (validateAndFetchDemo fs now new_id tok r w)) =
               console w @ [''Failed to update share link view count:'',
                            ''Track view error:''])"
      by (simp add: run trackView_increment_failed [OF e] u3)
  qed
  have third: "link_update fs = Throws \<longrightarrow>
          error (fst (validateAndFetchDemo fs now new_id tok r w)) = error r
        \<and> loading (fst (validateAndFetchDemo fs now new_id tok r w)) = False
        \<and> demo_views (snd (validateAndFetchDemo fs now new_id tok r w)) = demo_views w
        \<and> console (snd (validateAndFetchDemo fs now new_id tok r w)) =
            console w @ [''Failed to track view:'']"
  proof
    assume t: "link_update fs = Throws"
    show "error (fst (validateAndFetchDemo fs now new_id tok r w)) = error r
        \<and> loading (fst (validateAndFetchDemo fs now new_id tok r w)) = False
        \<and> demo_views (snd (validateAndFetchDemo fs now new_id tok r w)) = demo_views w
        \<and> console (snd (validateAndFetchDemo fs now new_id tok r w)) =
            console w @ [''Failed to track view:'']"
      by (simp add: run trackView_increment_throws [OF t] u3)
  qed
  show ?thesis
    using first second third by blast
qed

text \<open>
  Claim C2, amended, at the example store with an update of the link that the store
  refuses: the link keeps its count, the failure is on the console, the viewer has no
  error, loading has ended and the view record exists.
\<close>

theorem increment_before_record_witness:
  "map view_count (share_links (snd (validateAndFetchDemo
         (no_faults\<lparr>link_update := ErrorResult\<rparr>) example_now ''V1'' ''abc''
         (initial_viewer example_now) example_world))) = [0]
   \<and> error (fst (validateAndFetchDemo
         (no_faults\<lparr>link_update := ErrorResult\<rparr>) example_now ''V1'' ''abc''
         (initial_viewer example_now) example_world)) = None
   \<and> loading (fst (validateAndFetchDemo
         (no_faults\<lparr>link_update := ErrorResult\<rparr>) example_now ''V1'' ''abc''
         (initial_viewer example_now) example_world)) = False
   \<and> map dv_id (demo_views (snd (validateAndFetchDemo
         (no_faults\<lparr>link_update := ErrorResult\<rparr>) example_now ''V1'' ''abc''
         (initial_viewer example_now) example_world))) = [''V1'']
   \<and> console (snd (validateAndFetchDemo
         (no_faults\<lparr>link_update := ErrorResult\<rparr>) example_now ''V1'' ''abc''
         (initial_viewer example_now) example_world)) =
       [''Failed to update share link view count:'']"
proof -
  have h1: "fetchLink (link_select (no_faults\<lparr>link_update := ErrorResult\<rparr>)) ''abc''
      example_world = Data example_link"
    by (simp add: fetchLink_def no_faults_def example_world_def example_link_def
        respond_def single_def)
  have h2: "\<not> expired example_now example_link"
    by (simp add: expired_def example_link_def)
  have h3: "\<not> exhausted example_link"
    by (simp add: exhausted_def example_link_def)
  have h4: "fetchDemo (demo_select (no_faults\<lparr>link_update := ErrorResult\<rparr>))
      (sl_demo_id example_link) example_world =
      Data \<lparr>d_id = ''D1'', d_title = ''Demo'', is_public = False, owner_id = ''U1''\<rparr>"
    by (simp add: fetchDemo_def no_faults_def example_world_def example_link_def
        respond_def single_def)
  have h5: "steps_select (no_faults\<lparr>link_update := ErrorResult\<rparr>) \<noteq> Throws"
    by (simp add: no_faults_def)
  have e: "link_update (no_faults\<lparr>link_update := ErrorResult\<rparr>) = ErrorResult"
    by simp
  have i: "view_insert (no_faults\<lparr>link_update := ErrorResult\<rparr>) = NoFault"
    by (simp add: no_faults_def)
  have w: "share_links example_world = [example_link]" "demo_views example_world = []"
    "console example_world = []"
    by (simp_all add: example_world_def)
  show ?thesis
    using increment_before_record [OF h1 h2 h3 h4 h5, where new_id = "''V1''"
        and r = "initial_viewer example_now"]
    by (simp add: e i w incrementViewCount_def viewRecord_def example_link_def
        initial_viewer_def)
qed

subsection \<open>C3: views by day\<close>

text \<open>
  Claim C3 fails on the code at UTC+05:30, at 01:00 on January 10, for one record
  viewed at 10:00 UTC on January 9, which is 15:30 on January 9 in local time. The
  entries are labelled with local dates, and each one counts the records whose
  \<open>viewed_at\<close> starts with the UTC date of its instant: the record is counted under
  January 10, and the entry of January 9, its local date, counts nothing.
\<close>

theorem viewsByDay_counts_utc_dates:
  "viewed_at example_view = toISOString 1704794400000
   \<and> toLocaleDateString 330 1704794400000 = ''Jan 9''
   \<and> toLocaleDateString 330 example_now = ''Jan 10''
   \<and> getViewsByDay 330 example_now [example_view] 7 =
       [\<lparr>date = ''Jan 4'', dv_views = 0\<rparr>, \<lparr>date = ''Jan 5'', dv_views = 0\<rparr>,
        \<lparr>date = ''Jan 6'', dv_views = 0\<rparr>, \<lparr>date = ''Jan 7'', dv_views = 0\<rparr>,
        \<lparr>date = ''Jan 8'', dv_views = 0\<rparr>, \<lparr>date = ''Jan 9'', dv_views = 0\<rparr>,
        \<lparr>date = ''Jan 10'', dv_views = 1\<rparr>]"
  by code_simp

subsection \<open>C4: a summary of no records\<close>

text \<open>
  Claim C4 says that a summary of no records has seven zero entries and no top demos.
  For a user with one demo and no views the top demos are that demo with no views, and
  for a user without demos the series of days is empty.
\<close>

theorem zero_records_summary_counterexample:
  "topDemos (fst (getUserAnalytics 0 example_now (Data [demo_Beta])
       (\<lambda>ids start. Data []) ''7d'')) = [\<lparr>title = ''Beta'', td_id = ''A'', td_views = 0\<rparr>]
   \<and> viewsByDay (fst (getUserAnalytics 0 example_now (Data [])
       (\<lambda>ids start. Data []) ''7d'')) = []"
  by (simp add: getUserAnalytics_no_views getUserAnalytics_no_demos getEmptyAnalytics_def
      demo_Beta_def)

text \<open>
  Claim C4, amended. Over seven days and with no record fetched, the total views, the
  unique viewers, the average time and the completion rate are 0. For a user with at
  least one demo the series of days has seven entries that count 0, and the top demos
  are the first five demos of the user in the order fetched, each with 0 views. For a
  user without demos the summary is the empty one, whose series of days is empty. For
  one demo the series has seven entries that count 0, and the top demos are that demo
  with 0 views when its title was found, and empty otherwise.
\<close>

theorem zero_records_summary:
  "(ds \<noteq> [] \<and>
    user_views (map d_id ds) (toISOString (setDate tz now (getDate tz now - 7))) = Data [] \<longrightarrow>
      getUserAnalytics tz now (Data ds) user_views ''7d'' =
        (\<lparr>totalViews = 0, uniqueViewers = 0, avgTimeSpent = Num 0, completionRate = Num 0,
          viewsByDay = getViewsByDay tz now [] 7,
          topDemos = take 5 (map (\<lambda>d. \<lparr>title = d_title d, td_id = d_id d, td_views = 0\<rparr>) ds)\<rparr>,
         []))
   \<and> getUserAnalytics tz now (Data []) user_views ''7d'' =
        (\<lparr>totalViews = 0, uniqueViewers = 0, avgTimeSpent = Num 0, completionRate = Num 0,
          viewsByDay = [], topDemos = []\<rparr>, [])
   \<and> (demo_views_q demoId (toISOString (setDate tz now (getDate tz now - 7))) = Data [] \<and>
      demo_q demoId \<noteq> Rejected \<longrightarrow>
      getDemoAnalytics tz now demo_views_q demo_q demoId ''7d'' =
        (\<lparr>totalViews = 0, uniqueViewers = 0, avgTimeSpent = Num 0, completionRate = Num 0,
          viewsByDay = getViewsByDay tz now [] 7,
          topDemos = (case demo_q demoId of
                        Data t \<Rightarrow> [\<lparr>title = t, td_id = demoId, td_views = 0\<rparr>]
                      | _ \<Rightarrow> [])\<rparr>,
         []))
   \<and> length (getViewsByDay tz now [] 7) = 7
   \<and> map dv_views (getViewsByDay tz now [] 7) = replicate 7 0"
proof -
  have a: "ds \<noteq> [] \<and>
    user_views (map d_id ds) (toISOString (setDate tz now (getDate tz now - 7))) = Data [] \<longrightarrow>
      getUserAnalytics tz now (Data ds) user_views ''7d'' =
        (\<lparr>totalViews = 0, uniqueViewers = 0, avgTimeSpent = Num 0, completionRate = Num 0,
          viewsByDay = getViewsByDay tz now [] 7,
          topDemos = take 5 (map (\<lambda>d. \<lparr>title = d_title d, td_id = d_id d, td_views = 0\<rparr>) ds)\<rparr>,
         [])"
    using getUserAnalytics_no_views [of ds user_views tz now] by blast
  have b: "getUserAnalytics tz now (Data []) user_views ''7d'' =
        (\<lparr>totalViews = 0, uniqueViewers = 0, avgTimeSpent = Num 0, completionRate = Num 0,
          viewsByDay = [], topDemos = []\<rparr>, [])"
    by (simp add: getUserAnalytics_no_demos getEmptyAnalytics_def)
  have c: "demo_views_q demoId (toISOString (setDate tz now (getDate tz now - 7))) = Data [] \<and>
      demo_q demoId \<noteq> Rejected \<longrightarrow>
      getDemoAnalytics tz now demo_views_q demo_q demoId ''7d'' =
        (\<lparr>totalViews = 0, uniqueViewers = 0, avgTimeSpent = Num 0, completionRate = Num 0,
          viewsByDay = getViewsByDay tz now [] 7,
          topDemos = (case demo_q demoId of
                        Data t \<Rightarrow> [\<lparr>title = t, td_id = demoId, td_views = 0\<rparr>]
                      | _ \<Rightarrow> [])\<rparr>,
         [])"
    using getDemoAnalytics_no_views [of demo_views_q demoId tz now demo_q] by blast
  have d: "length (getViewsByDay tz now [] 7) = 7"
    by (simp add: getViewsByDay_def getViewsByDay_from_length)
  have e: "map dv_views (getViewsByDay tz now [] 7) = replicate 7 0"
    by (simp only: getViewsByDay_def getViewsByDay_from_empty)
  show ?thesis
    using a b c d e by blast
qed

text \<open>
  Claim C4, amended, for a user with the one demo Beta and no views, and for that demo
  alone.
\<close>

theorem zero_records_summary_witness:
  "getUserAnalytics 0 example_now (Data [demo_Beta]) (\<lambda>ids start. Data []) ''7d'' =
     (\<lparr>totalViews = 0, uniqueViewers = 0, avgTimeSpent = Num 0, completionRate = Num 0,
       viewsByDay = getViewsByDay 0 example_now [] 7,
       topDemos = [\<lparr>title = ''Beta'', td_id = ''A'', td_views = 0\<rparr>]\<rparr>, [])
   \<and> getDemoAnalytics 0 example_now (\<lambda>i start. Data []) (\<lambda>i. Data ''Beta'') ''A'' ''7d'' =
     (\<lparr>totalViews = 0, uniqueViewers = 0, avgTimeSpent = Num 0, completionRate = Num 0,
       viewsByDay = getViewsByDay 0 example_now [] 7,
       topDemos = [\<lparr>title = ''Beta'', td_id = ''A'', td_views = 0\<rparr>]\<rparr>, [])
   \<and> map dv_views (getViewsByDay 0 example_now [] 7) = [0, 0, 0, 0, 0, 0, 0]"
  using zero_records_summary [of "[demo_Beta]" "\<lambda>ids start. Data []" 0 example_now
      "\<lambda>i start. Data []" "''A''" "\<lambda>i. Data ''Beta''"]
  by (simp add: demo_Beta_def numeral_eq_Suc)

subsection \<open>C5: the top demos\<close>

text \<open>
  Claim C5 says that demos with the same number of views are ordered by title. With
  ten views each for Beta and Alpha, fetched in this order, the code puts Beta first.
\<close>

theorem topDemos_tie_counterexample:
  "map title (getTopDemos (ten_views ''A'' @ ten_views ''B'') [demo_Beta, demo_Alpha]) =
     [''Beta'', ''Alpha'']
   \<and> map td_views (getTopDemos (ten_views ''A'' @ ten_views ''B'') [demo_Beta, demo_Alpha]) =
     [10, 10]"
  by (simp add: getTopDemos_def demoViewCounts_def ten_views_def demo_Beta_def
      demo_Alpha_def example_view_def)

text \<open>
  Claim C5, amended. The top demos are the first five of a ranking of the demos of the
  user, each one with the number of fetched records of its \<open>demo_id\<close> (a demo without
  views is ranked too, with 0). The ranking is descending in the number of views, and
  demos with the same number of views keep the order in which they were fetched; the
  title plays no part.
\<close>

theorem topDemos_stable_descending:
  "\<exists>ranked.
     getTopDemos vs ds = take 5 ranked
     \<and> sorted_wrt (\<lambda>a b. td_views a \<ge> td_views b) ranked
     \<and> (\<forall>k. filter (\<lambda>e. td_views e = k) ranked =
             filter (\<lambda>e. td_views e = k)
               (map (\<lambda>d. \<lparr>title = d_title d, td_id = d_id d,
                           td_views = length (filter (\<lambda>v. dv_demo_id v = d_id d) vs)\<rparr>) ds))"
proof -
  define ranked where "ranked = sort_key (\<lambda>e. - int (td_views e)) (demoViewCounts vs ds)"
  have a: "getTopDemos vs ds = take 5 ranked"
    by (simp add: getTopDemos_def ranked_def)
  have b: "sorted_wrt (\<lambda>a b. td_views a \<ge> td_views b) ranked"
    unfolding ranked_def by (rule sort_key_descending)
  have c: "filter (\<lambda>e. td_views e = k) ranked =
             filter (\<lambda>e. td_views e = k)
               (map (\<lambda>d. \<lparr>title = d_title d, td_id = d_id d,
                           td_views = length (filter (\<lambda>v. dv_demo_id v = d_id d) vs)\<rparr>) ds)"
    for k
  proof -
    have "filter (\<lambda>e. - int (td_views e) = - int k) ranked =
          filter (\<lambda>e. - int (td_views e) = - int k) (demoViewCounts vs ds)"
      unfolding ranked_def by (rule sort_key_stable)
    then show ?thesis
      by (simp add: demoViewCounts_def)
  qed
  show ?thesis
    using a b c by blast
qed

subsection \<open>C6: an expired link\<close>

text \<open>
  Claim C6. For every active share link of the store whose expiry is set and lies
  before now, \<open>validateAndFetchDemo\<close> for its token ends with the error
  \<open>This share link has expired\<close> and changes nothing in the store, whatever the
  view count and the view limit of the link are: the expiry is checked before the
  limit. Tokens are unique, and the store answers the lookup.
\<close>

theorem expired_link_rejected:
  assumes "l \<in> set (share_links w)"
    and "is_active l"
    and "distinct (map token (share_links w))"
    and "link_select fs = NoFault"
    and "expires_at l = Some e"
    and "e < now"
  shows "validateAndFetchDemo fs now new_id (token l) r w =
           (r\<lparr>error := Some ''This share link has expired'', loading := False\<rparr>, w)"
proof -
  have "fetchLink (link_select fs) (token l) w = Data l"
    using fetchLink_finds [OF assms(3) assms(1) assms(2)] assms(4) by simp
  then show ?thesis
    using assms(5,6)
    by (simp add: validateAndFetchDemo_def validateAndFetchDemo_try_def expired_def stop_def)
qed

text \<open>
  Claim C6 at the store whose link expired at time value 1000 and has used none of its
  five views.
\<close>

theorem expired_link_rejected_witness:
  "validateAndFetchDemo no_faults example_now ''V1'' ''abc'' (initial_viewer example_now)
     expired_world =
     ((initial_viewer example_now)
        \<lparr>error := Some ''This share link has expired'', loading := False\<rparr>, expired_world)
   \<and> view_count (example_link\<lparr>expires_at := Some 1000\<rparr>) = 0
   \<and> max_views (example_link\<lparr>expires_at := Some 1000\<rparr>) = Some 5
   \<and> \<not> exhausted (example_link\<lparr>expires_at := Some 1000\<rparr>)"
proof -
  have h1: "example_link\<lparr>expires_at := Some 1000\<rparr> \<in> set (share_links expired_world)"
    by (simp add: expired_world_def)
  have h2: "is_active (example_link\<lparr>expires_at := Some 1000\<rparr>)"
    by (simp add: example_link_def)
  have h3: "distinct (map token (share_links expired_world))"
    by (simp add: expired_world_def)
  have h4: "link_select no_faults = NoFault"
    by (simp add: no_faults_def)
  have h5: "expires_at (example_link\<lparr>expires_at := Some 1000\<rparr>) = Some 1000"
    by simp
  have h6: "(1000::int) < example_now"
    by (simp add: example_now_def)
  have t: "token (example_link\<lparr>expires_at := Some 1000\<rparr>) = ''abc''"
    by (simp add: example_link_def)
  show ?thesis
    using expired_link_rejected [OF h1 h2 h3 h4 h5 h6, of "''V1''" "initial_viewer example_now"]
    by (simp add: t example_link_def exhausted_def)
qed

subsection \<open>C7: the last progress update wins\<close>

text \<open>
  Claim C7. When the store performs the second of two progress updates of a view, the
  view records are those that the second update alone leaves, whatever the first one
  wrote and whether it was performed: every record of that view has the time spent and
  the completed steps of the second update.
\<close>

theorem updateViewProgress_last_write_wins:
  assumes "f2 = NoFault"
  shows "demo_views (snd (AnalyticsService_updateViewProgress f2 vid t2 c2
            (snd (AnalyticsService_updateViewProgress f1 vid t1 c1 w)))) =
         demo_views (snd (AnalyticsService_updateViewProgress f2 vid t2 c2 w))
     \<and> map (\<lambda>v. (time_spent v, completed_steps v))
          (filter (\<lambda>v. dv_id v = vid)
             (demo_views (snd (AnalyticsService_updateViewProgress f2 vid t2 c2
                (snd (AnalyticsService_updateViewProgress f1 vid t1 c1 w)))))) =
        map (\<lambda>v. (t2, c2)) (filter (\<lambda>v. dv_id v = vid) (demo_views w))"
proof -
  have a: "demo_views (snd (AnalyticsService_updateViewProgress NoFault vid t2 c2
            (snd (AnalyticsService_updateViewProgress f1 vid t1 c1 w)))) =
         demo_views (snd (AnalyticsService_updateViewProgress NoFault vid t2 c2 w))"
    by (cases f1)
       (auto simp: AnalyticsService_updateViewProgress_def
          AnalyticsService_updateViewProgress_try_def log_def)
  have b: "map (\<lambda>v. (time_spent v, completed_steps v))
          (filter (\<lambda>v. dv_id v = vid)
             (demo_views (snd (AnalyticsService_updateViewProgress NoFault vid t2 c2 w)))) =
        map (\<lambda>v. (t2, c2)) (filter (\<lambda>v. dv_id v = vid) (demo_views w))"
    by (simp add: AnalyticsService_updateViewProgress_def
        AnalyticsService_updateViewProgress_try_def filter_map comp_def)
  show ?thesis
    using a b assms by simp
qed

text \<open>
  Claim C7 for the view \<open>V0\<close>: after the updates to 42 seconds and 3 steps and then to
  50 seconds and 4 steps, the record has 50 and 4.
\<close>

theorem updateViewProgress_last_write_wins_witness:
  "map (\<lambda>v. (time_spent v, completed_steps v))
     (demo_views (snd (AnalyticsService_updateViewProgress NoFault ''V0'' 50 4
        (snd (AnalyticsService_updateViewProgress NoFault ''V0'' 42 3
           (example_world\<lparr>demo_views := [example_view]\<rparr>)))))) = [(50, 4)]
   \<and> demo_views (snd (AnalyticsService_updateViewProgress NoFault ''V0'' 50 4
        (snd (AnalyticsService_updateViewProgress NoFault ''V0'' 42 3
           (example_world\<lparr>demo_views := [example_view]\<rparr>))))) =
     demo_views (snd (AnalyticsService_updateViewProgress NoFault ''V0'' 50 4
        (example_world\<lparr>demo_views := [example_view]\<rparr>)))"
proof -
  have v: "demo_views (snd (AnalyticsService_updateViewProgress NoFault ''V0'' 50 4
        (example_world\<lparr>demo_views := [example_view]\<rparr>))) =
      [example_view\<lparr>time_spent := 50, completed_steps := 4\<rparr>]"
    by (simp add: AnalyticsService_updateViewProgress_def
        AnalyticsService_updateViewProgress_try_def example_view_def)
  show ?thesis
    using updateViewProgress_last_write_wins [OF refl, of "''V0''" 50 4 NoFault 42 3
        "example_world\<lparr>demo_views := [example_view]\<rparr>"]
    by (simp add: v)
qed

subsection \<open>C8: the total steps of a view record\<close>

text \<open>
  Claim C8 fails on the code for the demo of three steps. The open runs in the closure
  of the first render, whose \<open>steps\<close> are the initial empty list: the viewer ends with
  the three steps loaded, and the record it created has \<open>total_steps\<close> 0. The public
  viewer does the same from its first render.
\<close>

theorem total_steps_not_step_count:
  "length (filter (\<lambda>s. ds_demo_id s = ''D1'') (demo_steps example_world)) = 3
   \<and> length (steps (fst (validateAndFetchDemo no_faults example_now ''V1'' ''abc''
        (initial_viewer example_now) example_world))) = 3
   \<and> map total_steps (demo_views (snd (validateAndFetchDemo no_faults example_now ''V1''
        ''abc'' (initial_viewer example_now) example_world))) = [0]
   \<and> map total_steps (demo_views (DemoViewer_trackView NoFault example_now ''V1'' ''D1''
        DemoViewer_initial_steps example_world)) = [0]"
  by (simp add: validateAndFetchDemo_def validateAndFetchDemo_try_def trackView_def
      trackView_try_def incrementViewCount_def AnalyticsService_trackView_def
      AnalyticsService_trackView_try_def fetchLink_def fetchDemo_def fetchSteps_def
      respond_def single_def expired_def exhausted_def or_zero_def Let_def viewRecord_def
      no_faults_def example_world_def example_link_def initial_viewer_def
      DemoViewer_trackView_def DemoViewer_initial_steps_def)

subsection \<open>C9: a failed fetch during a summary\<close>

text \<open>
  Claim C9 fails on the code when the query of the views answers with an error instead
  of throwing: \<open>getUserAnalytics\<close> does not read the error, goes on without views, and
  returns a summary that is not the empty one. Its average time is \<open>NaN\<close>, its series
  of days has seven entries and its top demos are the demos of the user.
\<close>

theorem views_error_summary_not_zeroed:
  "getUserAnalytics 0 example_now (Data [demo_Beta]) (\<lambda>ids start. Error) ''7d'' =
     (\<lparr>totalViews = 0, uniqueViewers = 0, avgTimeSpent = NaN, completionRate = Num 0,
       viewsByDay =
         [\<lparr>date = ''Jan 3'', dv_views = 0\<rparr>, \<lparr>date = ''Jan 4'', dv_views = 0\<rparr>,
          \<lparr>date = ''Jan 5'', dv_views = 0\<rparr>, \<lparr>date = ''Jan 6'', dv_views = 0\<rparr>,
          \<lparr>date = ''Jan 7'', dv_views = 0\<rparr>, \<lparr>date = ''Jan 8'', dv_views = 0\<rparr>,
          \<lparr>date = ''Jan 9'', dv_views = 0\<rparr>],
       topDemos = [\<lparr>title = ''Beta'', td_id = ''A'', td_views = 0\<rparr>]\<rparr>, [])
   \<and> fst (getUserAnalytics 0 example_now (Data [demo_Beta]) (\<lambda>ids start. Error) ''7d'') \<noteq>
       getEmptyAnalytics"
  by code_simp

subsection \<open>C10: two sessions opening at once\<close>

text \<open>
  Claim C10 fails on the code when two sessions look the link up before either of them
  writes: both read the link with no view, each writes the count it read plus one, and
  after both opens the store has two view records and a view count of 1.
\<close>

theorem concurrent_opens_lose_increment:
  "fetchLink NoFault ''abc'' example_world = Data example_link
   \<and> view_count example_link = 0
   \<and> map view_count (share_links (snd (
        trackView no_faults example_now ''V2'' (initial_viewer example_now) example_link
          (initial_viewer example_now,
           snd (trackView no_faults example_now ''V1'' (initial_viewer example_now)
                  example_link (initial_viewer example_now, example_world)))))) = [1]
   \<and> map dv_id (demo_views (snd (
        trackView no_faults example_now ''V2'' (initial_viewer example_now) example_link
          (initial_viewer example_now,
           snd (trackView no_faults example_now ''V1'' (initial_viewer example_now)
                  example_link (initial_viewer example_now, example_world)))))) =
       [''V1'', ''V2'']"
  by (simp add: trackView_def trackView_try_def incrementViewCount_def
      AnalyticsService_trackView_def AnalyticsService_trackView_try_def fetchLink_def
      respond_def single_def or_zero_def Let_def viewRecord_def
      no_faults_def example_world_def example_link_def initial_viewer_def)

end
